theory Spec2Isabelle
  imports
    Main
    "HOL-Library.AList"
    "HOL-Library.Sublist"
    "HOL-Library.Char_ord"
    "HOL-Library.List_Lexorder"
    "HOL-Library.Multiset"
begin

section \<open>The table metadata store of LokiTableMetadataStore.ts\<close>

text \<open>
  A shallow embedding of \<^verbatim>\<open>src/table/persistence/LokiTableMetadataStore.ts\<close>.
  JavaScript strings are modelled as \<^typ>\<open>string\<close> (lists of 8-bit characters, so the
  model covers strings whose code units are below 256), \<^verbatim>\<open>undefined\<close> as
  \<^const>\<open>None\<close> of an option type, an exception as the \<^const>\<open>Inl\<close> branch of a sum, and
  the mutable store object as a record that every operation returns updated, also when
  it throws (a \<^verbatim>\<open>push\<close> that happened before the \<^verbatim>\<open>throw\<close> stays).
\<close>

subsection \<open>Strings\<close>

text \<open>
  \<^verbatim>\<open>String.prototype.replace(pattern, replacement)\<close> with a string pattern: the first
  occurrence of the pattern is replaced, the rest of the string is kept. (The replacement
  strings of the source contain no \<^verbatim>\<open>$\<close>, so no replacement pattern is expanded.)
\<close>

fun js_replace :: "string \<Rightarrow> string \<Rightarrow> string \<Rightarrow> string" where
  "js_replace pat rep [] = (if pat = [] then rep else [])"
| "js_replace pat rep (c # cs) =
     (if prefix pat (c # cs) then rep @ drop (length pat) (c # cs)
      else c # js_replace pat rep cs)"

subsection \<open>Data model\<close>

text \<open>
  Property values are \<^verbatim>\<open>any\<close> in the source; the model keeps the JavaScript primitives.
  A property bag is an association list: the own enumerable keys of the object in
  insertion order. \<^verbatim>\<open>obj[k]\<close> is \<open>prop_get\<close>, \<^verbatim>\<open>obj[k] = v\<close> is
  \<^const>\<open>AList.update\<close> and \<^verbatim>\<open>delete obj[k]\<close> is \<^const>\<open>AList.delete\<close>.
\<close>

datatype jsval = JUndefined | JNull | JStr string | JNum int | JBool bool

type_synonym props = "(string \<times> jsval) list"

definition prop_get :: "props \<Rightarrow> string \<Rightarrow> jsval" where
  "prop_get ps k = (case map_of ps k of None \<Rightarrow> JUndefined | Some v \<Rightarrow> v)"

text \<open>A \<^verbatim>\<open>Date\<close> is its number of milliseconds since the epoch.\<close>

type_synonym date = int

record entity =
  PartitionKey :: string
  RowKey :: string
  properties :: props
  lastModifiedTime :: date
  eTag :: string

record Table =
  account :: string
  table :: string

datatype error =
    TableAlreadyExists
  | TableNotExist
  | TableNotFound
  | ResourceNotFound
  | EntityAlreadyExist
  | EntityNotFound
  | PreconditionFailed
  | PropertiesNeedValue
  | QueryConditionInvalid
  | NotImplemented
  | TransactionOverlap

subsection \<open>Durable collections\<close>

text \<open>
  Modelled from the spec: the LokiJS collection (section 4.1, Durable Collections), a
  library that is not part of the repository. A collection is the array of its
  documents in insertion order; a stored document is an entity together with the
  \<^verbatim>\<open>$loki\<close> id the collection gave it at \<^verbatim>\<open>insert\<close>, which is how
  \<^verbatim>\<open>remove(doc)\<close> and \<^verbatim>\<open>update(doc)\<close> find the document they are given.
  \<^verbatim>\<open>findOne\<close> returns the first document with the given keys; \<^verbatim>\<open>insert\<close>
  appends under a fresh id; \<^verbatim>\<open>remove\<close>, given a document it stores, deletes the
  document stored under the id and strips the \<^verbatim>\<open>$loki\<close> property from the object it
  was given; \<^verbatim>\<open>update\<close> puts the given object in the place of the document stored
  under its id, and the object that was stored there keeps its \<^verbatim>\<open>$loki\<close> property.
  \<open>replaced\<close> lists the ids under which \<^verbatim>\<open>update\<close> has stored another object.
\<close>

type_synonym doc = "nat \<times> entity"

record collection =
  docs :: "doc list"
  maxId :: nat
  replaced :: "nat list"

definition findOne :: "collection \<Rightarrow> string \<Rightarrow> string \<Rightarrow> doc option" where
  "findOne coll pk rk =
     find (\<lambda>d. PartitionKey (snd d) = pk \<and> RowKey (snd d) = rk) (docs coll)"

definition insert_doc :: "collection \<Rightarrow> entity \<Rightarrow> collection" where
  "insert_doc coll e =
     coll\<lparr>docs := docs coll @ [(Suc (maxId coll), e)], maxId := Suc (maxId coll)\<rparr>"

definition remove_doc :: "collection \<Rightarrow> doc \<Rightarrow> collection" where
  "remove_doc coll d = coll\<lparr>docs := filter (\<lambda>x. fst x \<noteq> fst d) (docs coll)\<rparr>"

definition update_doc :: "collection \<Rightarrow> doc \<Rightarrow> collection" where
  "update_doc coll d =
     coll\<lparr>docs := map (\<lambda>x. if fst x = fst d then d else x) (docs coll),
          replaced := replaced coll @ [fst d]\<rparr>"

subsection \<open>The store\<close>

text \<open>
  The state of one \<^verbatim>\<open>LokiTableMetadataStore\<close>: the table registry
  (\<^verbatim>\<open>$TABLES_COLLECTION$\<close>), the entity collections of the database by name
  (\<^verbatim>\<open>db.getCollection(name)\<close> is a lookup in the map), and the two undo logs of
  the batch transaction. The logs hold references to objects; the model holds each
  object as the document it was when it was logged (its \<^verbatim>\<open>$loki\<close> id and its five
  entity fields, which no operation of the store changes afterwards).
\<close>

record store =
  tablesCollection :: "Table list"
  entityCollections :: "string \<rightharpoonup> collection"
  transactionRollbackTheseEntities :: "doc list"
  transactionDeleteTheseEntities :: "doc list"

definition getTableCollectionName :: "string \<Rightarrow> string \<Rightarrow> string" where
  "getTableCollectionName acct tbl = acct @ ''$'' @ tbl"

definition findTable :: "store \<Rightarrow> string \<Rightarrow> string \<Rightarrow> Table option" where
  "findTable st acct tbl =
     find (\<lambda>t. account t = acct \<and> table t = tbl) (tablesCollection st)"

text \<open>
  Modelled from the spec: \<^verbatim>\<open>ODATA_TYPE\<close> of \<^verbatim>\<open>utils/constants\<close>, which is not
  among the sources; the spec gives the companion keys as \<^verbatim>\<open><name>@odata.type\<close>.
\<close>

definition ODATA_TYPE :: string where
  "ODATA_TYPE = ''@odata.type''"

subsection \<open>updateTableEntity and mergeTableEntity\<close>

text \<open>
  \<^verbatim>\<open>getTimestampString\<close> of \<^verbatim>\<open>utils/utils\<close> is not among the sources: it is a
  parameter of the operations that call it. \<^verbatim>\<open>ifMatch\<close> and \<^verbatim>\<open>batchId\<close> are
  optional parameters of the source (\<^verbatim>\<open>string | undefined\<close>).
\<close>

definition updateTableEntity ::
  "(date \<Rightarrow> string) \<Rightarrow> store \<Rightarrow> string \<Rightarrow> string \<Rightarrow> entity \<Rightarrow> string option \<Rightarrow> string option
     \<Rightarrow> (error + entity) \<times> store" where
  "updateTableEntity getTimestampString st tbl acct ent ifMatch batchId =
     (case findTable st acct tbl of
        None \<Rightarrow> (Inl TableNotExist, st)
      | Some tableDocument \<Rightarrow>
     (case entityCollections st (getTableCollectionName acct tbl) of
        None \<Rightarrow> (Inl TableNotExist, st)
      | Some tableEntityCollection \<Rightarrow>
     (case findOne tableEntityCollection (PartitionKey ent) (RowKey ent) of
        None \<Rightarrow> (Inl EntityNotFound, st)
      | Some doc \<Rightarrow>
       (let st1 = (if batchId \<noteq> Some ''''
                   then st\<lparr>transactionRollbackTheseEntities :=
                             transactionRollbackTheseEntities st @ [doc]\<rparr>
                   else st);
            encodedEtag = js_replace '':'' ''%3A'' (js_replace '':'' ''%3A'' (eTag (snd doc)));
            encodedIfMatch =
              (case ifMatch of
                 None \<Rightarrow> None
               | Some m \<Rightarrow> Some (js_replace '':'' ''%3A'' (js_replace '':'' ''%3A'' m)))
        in if encodedIfMatch = None \<or> encodedIfMatch = Some ''*'' \<or>
              (encodedIfMatch \<noteq> None \<and> Some encodedEtag = encodedIfMatch)
           then
             (let coll1 = remove_doc tableEntityCollection doc;
                  ent1 = ent\<lparr>properties :=
                           AList.update ''Timestamp''
                             (JStr (getTimestampString (lastModifiedTime ent))) (properties ent)\<rparr>;
                  ent2 = ent1\<lparr>properties :=
                           AList.update ''Timestamp@odata.type'' (JStr ''Edm.DateTime'')
                             (properties ent1)\<rparr>;
                  coll2 = insert_doc coll1 ent2
              in (Inr ent2,
                  st1\<lparr>entityCollections :=
                        (entityCollections st1)(getTableCollectionName acct tbl \<mapsto> coll2)\<rparr>))
           else (Inl PreconditionFailed, st1)))))"

text \<open>
  The loop of \<^verbatim>\<open>mergeTableEntity\<close> over the own keys of the incoming properties.
  \<open>merged\<close> starts as the copy \<^verbatim>\<open>{...doc.properties}\<close>.
\<close>

definition mergeProperty :: "props \<Rightarrow> props \<Rightarrow> string \<Rightarrow> props" where
  "mergeProperty incoming merged k =
     (if suffix ODATA_TYPE k then merged
      else
        (let merged1 = AList.update k (prop_get incoming k) merged
         in if prop_get incoming (k @ ODATA_TYPE) \<noteq> JUndefined
            then AList.update (k @ ODATA_TYPE) (prop_get incoming (k @ ODATA_TYPE)) merged1
            else AList.delete (k @ ODATA_TYPE) merged1))"

definition mergeProperties :: "props \<Rightarrow> props \<Rightarrow> props" where
  "mergeProperties stored incoming = foldl (mergeProperty incoming) stored (map fst incoming)"

definition mergeTableEntity ::
  "store \<Rightarrow> string \<Rightarrow> string \<Rightarrow> entity \<Rightarrow> string option \<Rightarrow> string option
     \<Rightarrow> (error + entity) \<times> store" where
  "mergeTableEntity st tbl acct ent ifMatch batchId =
     (case findTable st acct tbl of
        None \<Rightarrow> (Inl TableNotExist, st)
      | Some tableDocument \<Rightarrow>
     (case entityCollections st (getTableCollectionName acct tbl) of
        None \<Rightarrow> (Inl TableNotExist, st)
      | Some tableEntityCollection \<Rightarrow>
     (case findOne tableEntityCollection (PartitionKey ent) (RowKey ent) of
        None \<Rightarrow> (Inl EntityNotFound, st)
      | Some doc \<Rightarrow>
       (let st1 = (if batchId \<noteq> Some ''''
                   then st\<lparr>transactionRollbackTheseEntities :=
                             transactionRollbackTheseEntities st @ [doc]\<rparr>
                   else st);
            encodedEtag = js_replace '':'' ''%3A'' (js_replace '':'' ''%3A'' (eTag (snd doc)));
            encodedIfMatch =
              (case ifMatch of
                 None \<Rightarrow> None
               | Some m \<Rightarrow> Some (js_replace '':'' ''%3A'' (js_replace '':'' ''%3A'' m)))
        in if encodedIfMatch = None \<or> encodedIfMatch = Some ''*'' \<or>
              (encodedIfMatch \<noteq> None \<and> Some encodedEtag = encodedIfMatch)
           then
             (let mergedDEntity =
                    ent\<lparr>properties := mergeProperties (properties (snd doc)) (properties ent)\<rparr>;
                  coll1 = update_doc tableEntityCollection (fst doc, mergedDEntity)
              in (Inr mergedDEntity,
                  st1\<lparr>entityCollections :=
                        (entityCollections st1)(getTableCollectionName acct tbl \<mapsto> coll1)\<rparr>))
           else (Inl PreconditionFailed, st1)))))"

subsection \<open>The ETag comparison in the spec's words\<close>

text \<open>
  The spec describes the comparison of \<^verbatim>\<open>updateTableEntity\<close> and
  \<^verbatim>\<open>mergeTableEntity\<close> as "replace the first two \<^verbatim>\<open>:\<close> with \<^verbatim>\<open>%3A\<close>".
  \<open>encodeFirstColons n\<close> follows these words (the first \<open>n\<close> colons, left to right);
  it is compared below with the two \<^verbatim>\<open>replace\<close> calls of the source.
\<close>

fun encodeFirstColons :: "nat \<Rightarrow> string \<Rightarrow> string" where
  "encodeFirstColons 0 s = s"
| "encodeFirstColons (Suc n) [] = []"
| "encodeFirstColons (Suc n) (c # cs) =
     (if c = CHR '':'' then ''%3A'' @ encodeFirstColons n cs
      else c # encodeFirstColons (Suc n) cs)"

subsection \<open>A small store for concrete runs\<close>

definition example_entity :: entity where
  "example_entity =
     \<lparr>PartitionKey = ''p'', RowKey = ''r'',
      properties = [(''x'', JNum 1), (''x@odata.type'', JStr ''Edm.Int32''),
                    (''Timestamp'', JStr ''t0''), (''Timestamp@odata.type'', JStr ''Edm.DateTime'')],
      lastModifiedTime = 0, eTag = ''W/dt2020T10:20:30Z''\<rparr>"

definition example_store :: store where
  "example_store =
     \<lparr>tablesCollection = [\<lparr>account = ''acct'', table = ''t''\<rparr>],
      entityCollections = [''acct$t'' \<mapsto> \<lparr>docs = [(1, example_entity)], maxId = 1, replaced = []\<rparr>],
      transactionRollbackTheseEntities = [],
      transactionDeleteTheseEntities = []\<rparr>"

definition example_update :: entity where
  "example_update =
     \<lparr>PartitionKey = ''p'', RowKey = ''r'',
      properties = [(''y'', JStr ''v''), (''x'', JNum 2)],
      lastModifiedTime = 5, eTag = ''W/dt2020T10:20:35Z''\<rparr>"

subsection \<open>insertTableEntity, deleteTableEntity and the upserts\<close>

text \<open>
  \<^verbatim>\<open>insertTableEntity\<close> pushes the entity object on the delete log and then inserts the
  same object, which gives it its \<^verbatim>\<open>$loki\<close> id: the log entry is the stored document.
\<close>

definition insertTableEntity ::
  "(date \<Rightarrow> string) \<Rightarrow> store \<Rightarrow> string \<Rightarrow> string \<Rightarrow> entity \<Rightarrow> string option
     \<Rightarrow> (error + entity) \<times> store" where
  "insertTableEntity getTimestampString st tbl acct ent batchId =
     (case findTable st acct tbl of
        None \<Rightarrow> (Inl TableNotExist, st)
      | Some tableDocument \<Rightarrow>
     (case entityCollections st (getTableCollectionName acct tbl) of
        None \<Rightarrow> (Inl TableNotExist, st)
      | Some tableEntityCollection \<Rightarrow>
     (case findOne tableEntityCollection (PartitionKey ent) (RowKey ent) of
        Some doc \<Rightarrow> (Inl EntityAlreadyExist, st)
      | None \<Rightarrow>
       (let ent1 = ent\<lparr>properties :=
                     AList.update ''Timestamp''
                       (JStr (getTimestampString (lastModifiedTime ent))) (properties ent)\<rparr>;
            ent2 = ent1\<lparr>properties :=
                     AList.update ''Timestamp@odata.type'' (JStr ''Edm.DateTime'')
                       (properties ent1)\<rparr>;
            coll1 = insert_doc tableEntityCollection ent2;
            st1 = (if batchId \<noteq> Some '''' \<and> batchId \<noteq> None
                   then st\<lparr>transactionDeleteTheseEntities :=
                             transactionDeleteTheseEntities st @ [(maxId coll1, ent2)]\<rparr>
                   else st)
        in (Inr ent2,
            st1\<lparr>entityCollections :=
                  (entityCollections st1)(getTableCollectionName acct tbl \<mapsto> coll1)\<rparr>)))))"

text \<open>
  \<^verbatim>\<open>partitionKey\<close> and \<^verbatim>\<open>rowKey\<close> are declared \<^verbatim>\<open>string\<close> and tested against
  \<^verbatim>\<open>undefined\<close>, so they are optional here; \<^verbatim>\<open>etag\<close> and \<^verbatim>\<open>batchId\<close> are
  \<^verbatim>\<open>string\<close>.
\<close>

definition deleteTableEntity ::
  "store \<Rightarrow> string \<Rightarrow> string \<Rightarrow> string option \<Rightarrow> string option \<Rightarrow> string \<Rightarrow> string
     \<Rightarrow> (error + unit) \<times> store" where
  "deleteTableEntity st tbl acct partitionKey rowKey etag batchId =
     (case findTable st acct tbl of
        None \<Rightarrow> (Inl TableNotExist, st)
      | Some tableDocument \<Rightarrow>
     (case entityCollections st (getTableCollectionName acct tbl) of
        None \<Rightarrow> (Inl TableNotExist, st)
      | Some tableEntityCollection \<Rightarrow>
     (case (partitionKey, rowKey) of
        (Some pk, Some rk) \<Rightarrow>
          (case findOne tableEntityCollection pk rk of
             None \<Rightarrow> (Inl EntityNotFound, st)
           | Some doc \<Rightarrow>
               if etag \<noteq> ''*'' \<and> eTag (snd doc) \<noteq> etag then (Inl PreconditionFailed, st)
               else
                 (let st1 = (if batchId \<noteq> ''''
                             then st\<lparr>transactionRollbackTheseEntities :=
                                       transactionRollbackTheseEntities st @ [doc]\<rparr>
                             else st)
                  in (Inr (),
                      st1\<lparr>entityCollections :=
                            (entityCollections st1)(getTableCollectionName acct tbl \<mapsto>
                               remove_doc tableEntityCollection doc)\<rparr>)))
      | _ \<Rightarrow> (Inl PropertiesNeedValue, st))))"

definition queryTableEntitiesWithPartitionAndRowKey ::
  "store \<Rightarrow> string \<Rightarrow> string \<Rightarrow> string \<Rightarrow> string \<Rightarrow> error + doc option" where
  "queryTableEntitiesWithPartitionAndRowKey st tbl acct partitionKey rowKey =
     (case entityCollections st (getTableCollectionName acct tbl) of
        None \<Rightarrow> Inl TableNotExist
      | Some tableColl \<Rightarrow> Inr (findOne tableColl partitionKey rowKey))"

definition insertOrUpdateTableEntity ::
  "(date \<Rightarrow> string) \<Rightarrow> store \<Rightarrow> string \<Rightarrow> string \<Rightarrow> entity \<Rightarrow> string option \<Rightarrow> string option
     \<Rightarrow> (error + entity) \<times> store" where
  "insertOrUpdateTableEntity getTimestampString st tbl acct ent ifMatch batchId =
     (if ifMatch = None \<or> ifMatch = Some ''*''
      then
        (case queryTableEntitiesWithPartitionAndRowKey st tbl acct
                (PartitionKey ent) (RowKey ent) of
           Inl e \<Rightarrow> (Inl e, st)
         | Inr (Some existingEntity) \<Rightarrow>
             updateTableEntity getTimestampString st tbl acct ent ifMatch batchId
         | Inr None \<Rightarrow> insertTableEntity getTimestampString st tbl acct ent batchId)
      else updateTableEntity getTimestampString st tbl acct ent ifMatch batchId)"

definition insertOrMergeTableEntity ::
  "(date \<Rightarrow> string) \<Rightarrow> store \<Rightarrow> string \<Rightarrow> string \<Rightarrow> entity \<Rightarrow> string option \<Rightarrow> string option
     \<Rightarrow> (error + entity) \<times> store" where
  "insertOrMergeTableEntity getTimestampString st tbl acct ent ifMatch batchId =
     (if ifMatch = None \<or> ifMatch = Some ''*''
      then
        (case queryTableEntitiesWithPartitionAndRowKey st tbl acct
                (PartitionKey ent) (RowKey ent) of
           Inl e \<Rightarrow> (Inl e, st)
         | Inr (Some existingEntity) \<Rightarrow> mergeTableEntity st tbl acct ent ifMatch batchId
         | Inr None \<Rightarrow> insertTableEntity getTimestampString st tbl acct ent batchId)
      else mergeTableEntity st tbl acct ent ifMatch batchId)"

subsection \<open>The batch transaction\<close>

definition beginBatchTransaction :: "store \<Rightarrow> string \<Rightarrow> (error + unit) \<times> store" where
  "beginBatchTransaction st batchId =
     (if length (transactionRollbackTheseEntities st) > 0 \<or>
         length (transactionDeleteTheseEntities st) > 0
      then (Inl TransactionOverlap, st)
      else (Inr (), st))"

text \<open>
  The body of the first loop of \<^verbatim>\<open>endBatchTransaction\<close>: the copy keeps the five entity
  fields of the logged document and drops the collection's bookkeeping.
\<close>

definition restoreEntity :: "collection \<Rightarrow> doc \<Rightarrow> collection" where
  "restoreEntity tableBatchCollection logged =
     (let copiedEntity =
            \<lparr>PartitionKey = PartitionKey (snd logged), RowKey = RowKey (snd logged),
             properties = properties (snd logged),
             lastModifiedTime = lastModifiedTime (snd logged), eTag = eTag (snd logged)\<rparr>;
          coll1 =
            (case findOne tableBatchCollection (PartitionKey (snd logged)) (RowKey (snd logged)) of
               Some doc \<Rightarrow> remove_doc tableBatchCollection doc
             | None \<Rightarrow> tableBatchCollection)
      in insert_doc coll1 copiedEntity)"

text \<open>
  Modelled from the spec: \<^verbatim>\<open>remove(deleteRow)\<close> of the second loop, on an object of the
  delete log, which may have left the collection since it was inserted (section 4.1 does
  not say what \<^verbatim>\<open>remove\<close> does then; this is LokiJS). The logged object was inserted
  under its id. If a document is stored under the id, it is removed. If none is and the
  object was replaced by \<^verbatim>\<open>update\<close> before its id left the collection, it still has
  its \<^verbatim>\<open>$loki\<close> property and \<^verbatim>\<open>remove\<close> finds nothing to do. Otherwise the object
  itself was handed to \<^verbatim>\<open>remove\<close> before and has lost the property: \<^verbatim>\<open>remove\<close>
  throws (\<^const>\<open>None\<close>).
\<close>

datatype loki_error = NotADocument

definition remove_logged :: "collection \<Rightarrow> doc \<Rightarrow> collection option" where
  "remove_logged coll deleteRow =
     (if fst deleteRow \<in> set (map fst (docs coll)) then Some (remove_doc coll deleteRow)
      else if fst deleteRow \<in> set (replaced coll) then Some coll
      else None)"

text \<open>
  The second loop: it stops at the first \<^verbatim>\<open>remove\<close> that throws, and the collection
  stays as the loops have left it (the flag tells whether the loop came to its end).
\<close>

fun removeInserted :: "collection \<Rightarrow> doc list \<Rightarrow> bool \<times> collection" where
  "removeInserted coll [] = (True, coll)"
| "removeInserted coll (deleteRow # rest) =
     (case remove_logged coll deleteRow of
        None \<Rightarrow> (False, coll)
      | Some coll1 \<Rightarrow> removeInserted coll1 rest)"

text \<open>
  \<^verbatim>\<open>endBatchTransaction\<close>: the two resets of the logs come after the loops, outside
  any \<^verbatim>\<open>try\<close>, so an exception of the second loop leaves the logs as they are.
\<close>

definition endBatchTransaction ::
  "store \<Rightarrow> string \<Rightarrow> string \<Rightarrow> string \<Rightarrow> bool \<Rightarrow> (loki_error + unit) \<times> store" where
  "endBatchTransaction st acct tbl batchId succeeded =
     (if \<not> succeeded then
        (case entityCollections st (getTableCollectionName acct tbl) of
           None \<Rightarrow>
             (Inr (), st\<lparr>transactionRollbackTheseEntities := [],
                          transactionDeleteTheseEntities := []\<rparr>)
         | Some tableBatchCollection \<Rightarrow>
             (let coll1 = foldl restoreEntity tableBatchCollection
                            (transactionRollbackTheseEntities st);
                  (completed, coll2) = removeInserted coll1 (transactionDeleteTheseEntities st);
                  st1 = st\<lparr>entityCollections :=
                             (entityCollections st)(getTableCollectionName acct tbl \<mapsto> coll2)\<rparr>
              in if completed
                 then (Inr (), st1\<lparr>transactionRollbackTheseEntities := [],
                                    transactionDeleteTheseEntities := []\<rparr>)
                 else (Inl NotADocument, st1)))
      else (Inr (), st\<lparr>transactionRollbackTheseEntities := [],
                        transactionDeleteTheseEntities := []\<rparr>))"

text \<open>The invariant (I2) of an entity collection: the pair of keys identifies a document.\<close>

definition key_of :: "doc \<Rightarrow> string \<times> string" where
  "key_of d = (PartitionKey (snd d), RowKey (snd d))"

definition unique_keys :: "collection \<Rightarrow> bool" where
  "unique_keys coll = distinct (map key_of (docs coll))"

text \<open>An entity to insert during a batch.\<close>

definition example_inserted :: entity where
  "example_inserted =
     \<lparr>PartitionKey = ''p'', RowKey = ''r2'',
      properties = [(''x'', JNum 7), (''Timestamp'', JStr ''t7''),
                    (''Timestamp@odata.type'', JStr ''Edm.DateTime'')],
      lastModifiedTime = 7, eTag = ''W/dt2020T10:20:37Z''\<rparr>"

subsection \<open>Characters and the regular expressions of the query compiler\<close>

abbreviation QUOTE :: char where "QUOTE \<equiv> CHR 0x27"
abbreviation BACKTICK :: char where "BACKTICK \<equiv> CHR 0x60"
abbreviation BACKSLASH :: char where "BACKSLASH \<equiv> CHR 0x5C"

text \<open>
  The character classes \<^verbatim>\<open>\s\<close>, \<^verbatim>\<open>\d\<close> and \<^verbatim>\<open>\w\<close> of a JavaScript regular
  expression, on code units below 256.
\<close>

definition is_space :: "char \<Rightarrow> bool" where
  "is_space c \<longleftrightarrow>
     c \<in> set [CHR 0x09, CHR 0x0A, CHR 0x0B, CHR 0x0C, CHR 0x0D, CHR 0x20, CHR 0xA0]"

definition is_digit :: "char \<Rightarrow> bool" where
  "is_digit c \<longleftrightarrow> CHR ''0'' \<le> c \<and> c \<le> CHR ''9''"

definition is_word :: "char \<Rightarrow> bool" where
  "is_word c \<longleftrightarrow>
     is_digit c \<or> (CHR ''a'' \<le> c \<and> c \<le> CHR ''z'') \<or> (CHR ''A'' \<le> c \<and> c \<le> CHR ''Z'') \<or>
     c = CHR ''_''"

text \<open>
  \<^verbatim>\<open>\b\<close> at a position of a string: the position is given by the character before it
  (if any) and the rest of the string from it.
\<close>

definition word_boundary :: "char option \<Rightarrow> string \<Rightarrow> bool" where
  "word_boundary prev rest \<longleftrightarrow>
     (case prev of None \<Rightarrow> False | Some c \<Rightarrow> is_word c) \<noteq>
     (case rest of [] \<Rightarrow> False | c # _ \<Rightarrow> is_word c)"

text \<open>
  \<^verbatim>\<open>\b[0-9]+L\b\<close> (\<open>some\<close>: at least one digit) and \<^verbatim>\<open>\b[0-9]*L\b\<close> matching at a position. The digits
  are followed by \<^verbatim>\<open>L\<close>, which is no digit, so the greedy match is the only one.
  Two matches never overlap (inside a match every position has word characters on both
  sides), so the matches of the global search are the positions where a match starts.
\<close>

definition longint_at :: "bool \<Rightarrow> char option \<Rightarrow> string \<Rightarrow> bool" where
  "longint_at some prev rest \<longleftrightarrow>
     word_boundary prev rest \<and> (if some then takeWhile is_digit rest \<noteq> [] else True) \<and>
     (case dropWhile is_digit rest of
        [] \<Rightarrow> False
      | c # r \<Rightarrow> c = CHR ''L'' \<and> word_boundary (Some c) r)"

fun longint_matches :: "bool \<Rightarrow> char option \<Rightarrow> string \<Rightarrow> nat" where
  "longint_matches some prev [] = 0"
| "longint_matches some prev (c # cs) =
     (if longint_at some prev (c # cs) then 1 else 0) + longint_matches some (Some c) cs"

text \<open>\<^verbatim>\<open>token.match(/\b\d+/)\<close>: a digit right after a word boundary.\<close>

fun digits_after_boundary :: "char option \<Rightarrow> string \<Rightarrow> bool" where
  "digits_after_boundary prev [] = False"
| "digits_after_boundary prev (c # cs) =
     ((word_boundary prev (c # cs) \<and> is_digit c) \<or> digits_after_boundary (Some c) cs)"

text \<open>\<^verbatim>\<open>token.replace(/L\b/g, "")\<close>.\<close>

fun remove_L_boundary :: "string \<Rightarrow> string" where
  "remove_L_boundary [] = []"
| "remove_L_boundary (c # cs) =
     (if c = CHR ''L'' \<and> word_boundary (Some c) cs then remove_L_boundary cs
      else c # remove_L_boundary cs)"

text \<open>
  \<^verbatim>\<open>token.replace(/\bdatetime\b/g, "")\<close>: \<open>skip\<close> counts the characters of a match
  that are still to be dropped.
\<close>

fun remove_datetime :: "nat \<Rightarrow> char option \<Rightarrow> string \<Rightarrow> string" where
  "remove_datetime skip prev [] = []"
| "remove_datetime (Suc n) prev (c # cs) = remove_datetime n (Some c) cs"
| "remove_datetime 0 prev (c # cs) =
     (if word_boundary prev (c # cs) \<and> prefix ''datetime'' (c # cs) \<and>
         word_boundary (Some CHR ''e'') (drop 8 (c # cs))
      then remove_datetime 7 (Some c) cs
      else c # remove_datetime 0 (Some c) cs)"

text \<open>\<^verbatim>\<open>replace(/''/g, "'")\<close> and \<^verbatim>\<open>replace(/`/g, "\\`")\<close>.\<close>

fun unescape_quotes :: "string \<Rightarrow> string" where
  "unescape_quotes (c # d # cs) =
     (if c = QUOTE \<and> d = QUOTE then QUOTE # unescape_quotes cs
      else c # unescape_quotes (d # cs))"
| "unescape_quotes cs = cs"

definition escape_backticks :: "string \<Rightarrow> string" where
  "escape_backticks s = concat (map (\<lambda>c. if c = BACKTICK then [BACKSLASH, BACKTICK] else [c]) s)"

text \<open>
  \<^verbatim>\<open>substring(start, end)\<close> and \<^verbatim>\<open>slice\<close> for the indices the source passes:
  negative indices count as 0 and indices beyond the end as the length, and
  \<^verbatim>\<open>substring\<close> swaps its arguments when the first is the larger.
\<close>

definition js_substring :: "string \<Rightarrow> int \<Rightarrow> int \<Rightarrow> string" where
  "js_substring s a b =
     (let a' = min (nat a) (length s); b' = min (nat b) (length s)
      in take (max a' b' - min a' b') (drop (min a' b') s))"

text \<open>\<^verbatim>\<open>indexOf\<close> of a character: its first position, or -1.\<close>

fun js_indexOf :: "string \<Rightarrow> char \<Rightarrow> int" where
  "js_indexOf [] x = -1"
| "js_indexOf (c # cs) x =
     (if c = x then 0 else (let i = js_indexOf cs x in if i < 0 then -1 else i + 1))"

subsection \<open>tokenizeQuery\<close>

record tokenizer =
  pos :: int
  tokenStart :: int
  inString :: bool
  tokens :: "string list"

definition convertToken :: "string \<Rightarrow> string" where
  "convertToken token =
     (if token = ''TableName'' then ''name''
      else if token = ''eq'' then ''===''
      else if token = ''gt'' then ''>''
      else if token = ''ge'' then ''>=''
      else if token = ''lt'' then ''<''
      else if token = ''le'' then ''<=''
      else if token = ''ne'' then ''!==''
      else if token = ''and'' then ''&&''
      else if token = ''or'' then ''||''
      else if token = ''not'' then ''!''
      else token)"

text \<open>The string branch of \<^verbatim>\<open>appendToken\<close>, on the text between the token start and the closing quote.\<close>

definition stringToken :: "string \<Rightarrow> string" where
  "stringToken raw =
     (let token = unescape_quotes raw;
          stringStart = js_indexOf token QUOTE;
          typePrefix = js_substring token 0 stringStart;
          backtickString =
            [BACKTICK] @ drop (length typePrefix + 1) token @ [BACKTICK]
      in if typePrefix = ''guid'' then backtickString else typePrefix @ backtickString)"

definition appendToken :: "string \<Rightarrow> tokenizer \<Rightarrow> tokenizer" where
  "appendToken query s =
     (let s1 =
            (if pos s - tokenStart s > 0
             then
               (let token =
                      (if inString s then stringToken (js_substring query (tokenStart s) (pos s))
                       else convertToken (js_substring query (tokenStart s) (pos s)))
                in if token \<noteq> [] then s\<lparr>tokens := tokens s @ [token]\<rparr> else s)
             else s)
      in s1\<lparr>tokenStart := pos s + 1\<rparr>)"

text \<open>
  One round of the \<^verbatim>\<open>for\<close> loop at index \<open>pos s\<close> (within the string), with the
  \<^verbatim>\<open>i++\<close> of the loop header at the end.
\<close>

definition tokenizeStep :: "string \<Rightarrow> tokenizer \<Rightarrow> tokenizer" where
  "tokenizeStep query s =
     (let i = pos s; c = query ! nat i;
          s' =
            (if inString s then
               (if i < int (length query) - 1 \<and> c = QUOTE \<and> query ! nat (i + 1) = QUOTE
                then s\<lparr>pos := i + 1\<rparr>
                else if c = QUOTE then (appendToken query s)\<lparr>inString := False\<rparr>
                else s)
             else if c = CHR ''('' \<or> c = CHR '')'' then
               (let s1 =
                      (if (i \<noteq> 0 \<and>
                           (\<not> is_space (query ! nat (i - 1)) \<or>
                            (i \<ge> 5 \<and> js_substring query (i - 5) i = '' true'') \<or>
                            (i \<ge> 6 \<and> js_substring query (i - 6) i = '' false''))) \<or>
                          longint_matches True None (js_substring query (tokenStart s) i) > 0
                       then appendToken query s else s);
                    s2 = appendToken query (s1\<lparr>pos := i - 1\<rparr>);
                    s3 = s2\<lparr>pos := i\<rparr>
                in s3\<lparr>tokens := tokens s3 @ [[c]], tokenStart := tokenStart s3 + 1\<rparr>)
             else if is_space c then appendToken query s
             else if c = QUOTE then s\<lparr>inString := True\<rparr>
             else s)
      in s'\<lparr>pos := pos s' + 1\<rparr>)"

lemma pos_appendToken: "pos (appendToken query s) = pos s"
  by (simp add: appendToken_def Let_def)

lemma pos_tokenizeStep: "pos s < pos (tokenizeStep query s)"
  by (simp add: tokenizeStep_def Let_def pos_appendToken)

function tokenizeLoop :: "string \<Rightarrow> tokenizer \<Rightarrow> tokenizer" where
  "tokenizeLoop query s =
     (if 0 \<le> pos s \<and> pos s < int (length query)
      then tokenizeLoop query (tokenizeStep query s)
      else s)"
  by pat_completeness auto
termination
proof (relation "measure (\<lambda>(query, s). nat (int (length query) - pos s))")
  show "wf (measure (\<lambda>(query, s). nat (int (length query) - pos s)))" by simp
next
  fix query :: string and s :: tokenizer
  assume "0 \<le> pos s \<and> pos s < int (length query)"
  with pos_tokenizeStep[of s query]
  show "((query, tokenizeStep query s), (query, s))
          \<in> measure (\<lambda>(query, s). nat (int (length query) - pos s))"
    by simp
qed

declare tokenizeLoop.simps [simp del]

definition tokenizeQuery :: "string \<Rightarrow> string list" where
  "tokenizeQuery originalQuery =
     (let query = escape_backticks originalQuery;
          s = tokenizeLoop query \<lparr>pos = 0, tokenStart = 0, inString = False, tokens = []\<rparr>
      in tokens (appendToken query s))"

subsection \<open>transformQuery\<close>

datatype query_error = CustomPropertiesNotSupported | BinaryFilterNotSupported | JsSyntaxError

definition comparisonOperators :: "string list" where
  "comparisonOperators = [''==='', ''>'', ''>='', ''<'', ''<='', ''!=='']"

definition operatorTokens :: "string list" where
  "operatorTokens =
     [''==='', ''>'', ''>='', ''<'', ''<='', ''!=='', ''&&'', ''||'', ''!'', ''('', '')'']"

text \<open>
  The test that sends a token to the operand branch: it has no digit after a word
  boundary, is neither \<^verbatim>\<open>true\<close> nor \<^verbatim>\<open>false\<close>, holds no backtick and is no
  operator or parenthesis.
\<close>

definition isIdentifier :: "string \<Rightarrow> bool" where
  "isIdentifier token \<longleftrightarrow>
     \<not> digits_after_boundary None token \<and> token \<noteq> ''true'' \<and> token \<noteq> ''false'' \<and>
     BACKTICK \<notin> set token \<and> token \<notin> set operatorTokens"

text \<open>
  The body of the loop of \<^verbatim>\<open>transformQuery\<close> for one non-empty token: what is
  appended to \<^verbatim>\<open>transformedQuery\<close>, or the error thrown. \<open>counter\<close> is the index of
  the token in \<open>allTokens\<close> (the array \<^verbatim>\<open>tokens\<close>); \<open>systemProperties\<close> is the \<^verbatim>\<open>Map\<close> as an association list.
\<close>

definition transformToken ::
  "(string \<times> string) list \<Rightarrow> bool \<Rightarrow> string list \<Rightarrow> nat \<Rightarrow> bool \<Rightarrow> string
     \<Rightarrow> query_error + string" where
  "transformToken systemProperties allowCustomProperties allTokens counter previousIsOp token =
     (if isIdentifier token then
        (case map_of systemProperties token of
           Some mapped \<Rightarrow> Inr (''item.'' @ mapped @ '' '')
         | None \<Rightarrow>
             if allowCustomProperties then
               (if int counter + 2 \<le> int (length allTokens) - 1 \<and>
                   prefix ''datetime'' (allTokens ! (counter + 2))
                then Inr (''new Date(item.properties.'' @ token @ '').getTime() '')
                else Inr (''item.properties.'' @ token @ '' ''))
             else Inl CustomPropertiesNotSupported)
      else
        (if previousIsOp \<and> longint_matches False None token = 1
         then Inr ([QUOTE] @ remove_L_boundary token @ [QUOTE] @ '' '')
         else if previousIsOp \<and> prefix ''datetime'' token
         then Inr (''new Date('' @ remove_datetime 0 None token @ '').getTime() '')
         else if previousIsOp \<and> (prefix ''X'' token \<or> prefix ''binary'' token)
         then Inl BinaryFilterNotSupported
         else Inr (token @ '' '')))"

fun transformLoop ::
  "(string \<times> string) list \<Rightarrow> bool \<Rightarrow> string list \<Rightarrow> nat \<Rightarrow> bool \<Rightarrow> string \<Rightarrow> string list
     \<Rightarrow> query_error + string" where
  "transformLoop systemProperties allowCustomProperties allTokens counter isOp transformedQuery [] =
     Inr transformedQuery"
| "transformLoop systemProperties allowCustomProperties allTokens counter isOp transformedQuery
     (token # rest) =
     (if token = [] then
        transformLoop systemProperties allowCustomProperties allTokens (Suc counter) isOp
          transformedQuery rest
      else
        (case transformToken systemProperties allowCustomProperties allTokens counter isOp token of
           Inl e \<Rightarrow> Inl e
         | Inr out \<Rightarrow>
             transformLoop systemProperties allowCustomProperties allTokens (Suc counter)
               (token \<in> set comparisonOperators) (transformedQuery @ out) rest))"

definition transformQuery ::
  "string \<Rightarrow> (string \<times> string) list \<Rightarrow> bool \<Rightarrow> query_error + string" where
  "transformQuery query systemProperties allowCustomProperties =
     (let allTokens = tokenizeQuery query
      in case transformLoop systemProperties allowCustomProperties allTokens 0 False
                ''return ( '' allTokens of
           Inl e \<Rightarrow> Inl e
         | Inr transformedQuery \<Rightarrow> Inr (transformedQuery @ '')''))"


definition transformEntityQuery :: "string \<Rightarrow> query_error + string" where
  "transformEntityQuery query =
     transformQuery query [(''PartitionKey'', ''PartitionKey''), (''RowKey'', ''RowKey'')] True"


definition generateQueryEntityWhereFunction ::
  "(string \<Rightarrow> (entity \<Rightarrow> bool) option) \<Rightarrow> string option \<Rightarrow> query_error + (entity \<Rightarrow> bool)" where
  "generateQueryEntityWhereFunction newFunction query =
     (case query of
        None \<Rightarrow> Inr (\<lambda>item. True)
      | Some q \<Rightarrow>
          (case transformEntityQuery q of
             Inl e \<Rightarrow> Inl e
           | Inr transformedQuery \<Rightarrow>
               (case newFunction transformedQuery of
                  None \<Rightarrow> Inl JsSyntaxError
                | Some f \<Rightarrow> Inr f)))"

text \<open>
  The position of a token decides \<^verbatim>\<open>previousIsOp\<close>: the loop sets it from the token
  before. \<open>emitted allTokens i\<close> is what the loop appends for the token at index \<open>i\<close>.
\<close>

definition previousIsOp :: "string list \<Rightarrow> nat \<Rightarrow> bool" where
  "previousIsOp allTokens i \<longleftrightarrow> i > 0 \<and> allTokens ! (i - 1) \<in> set comparisonOperators"


subsection \<open>queryTableEntities and queryTable\<close>

text \<open>
  Modelled from the spec: \<^verbatim>\<open>QUERY_RESULT_MAX_NUM\<close> of \<^verbatim>\<open>utils/constants\<close>, which is
  not among the sources (section 4.6: "typically 1000").
\<close>

definition QUERY_RESULT_MAX_NUM :: nat where
  "QUERY_RESULT_MAX_NUM = 1000"

text \<open>
  The comparison operators of JavaScript on values that are a string or
  \<^verbatim>\<open>undefined\<close>: strings compare by code units, and a comparison with
  \<^verbatim>\<open>undefined\<close> is false.
\<close>

definition js_gt :: "string option \<Rightarrow> string option \<Rightarrow> bool" where
  "js_gt a b = (case (a, b) of (Some x, Some y) \<Rightarrow> x > y | _ \<Rightarrow> False)"

definition js_ge :: "string option \<Rightarrow> string option \<Rightarrow> bool" where
  "js_ge a b = (case (a, b) of (Some x, Some y) \<Rightarrow> x \<ge> y | _ \<Rightarrow> False)"

text \<open>
  The second \<^verbatim>\<open>where\<close> predicate of \<^verbatim>\<open>queryTableEntities\<close>, on the two keys of
  \<^verbatim>\<open>data\<close> (which is \<^verbatim>\<open>any\<close> there, so a key may be \<^verbatim>\<open>undefined\<close>).
\<close>

definition continuationFilter ::
  "string option \<Rightarrow> string option \<Rightarrow> string option \<Rightarrow> string option \<Rightarrow> bool" where
  "continuationFilter decodedNextPartitionKey decodedNextRowKey dataPartitionKey dataRowKey =
     (if decodedNextPartitionKey \<noteq> None \<and> js_gt dataPartitionKey decodedNextPartitionKey
      then True
      else if decodedNextRowKey \<noteq> None then
        (if js_ge dataRowKey decodedNextRowKey \<and>
            (dataPartitionKey = decodedNextPartitionKey \<or> dataPartitionKey = None)
         then True else False)
      else True)"

definition entityCompare :: "doc \<Rightarrow> doc \<Rightarrow> int" where
  "entityCompare obj1 obj2 =
     (if PartitionKey (snd obj1) > PartitionKey (snd obj2) then 1
      else if PartitionKey (snd obj1) = PartitionKey (snd obj2) then
        (if RowKey (snd obj1) > RowKey (snd obj2) then 1
         else if RowKey (snd obj1) = RowKey (snd obj2) then 0
         else -1)
      else -1)"

text \<open>
  Modelled from the spec: \<^verbatim>\<open>sort(compare)\<close> of the collection's result set, which
  sorts the array with the comparator (section 4.1). The model is the stable insertion
  sort.
\<close>

fun insert_by :: "('a \<Rightarrow> 'a \<Rightarrow> int) \<Rightarrow> 'a \<Rightarrow> 'a list \<Rightarrow> 'a list" where
  "insert_by cmp x [] = [x]"
| "insert_by cmp x (y # ys) = (if cmp x y \<le> 0 then x # y # ys else y # insert_by cmp x ys)"

definition sort_by :: "('a \<Rightarrow> 'a \<Rightarrow> int) \<Rightarrow> 'a list \<Rightarrow> 'a list" where
  "sort_by cmp xs = foldr (insert_by cmp) xs []"

text \<open>
  \<^verbatim>\<open>Buffer.from(input, "base64").toString("utf8")\<close> and its inverse belong to the
  runtime: the two conversions are the parameters \<open>fromBase64\<close> and \<open>toBase64\<close>.
\<close>

definition decodeContinuationHeader :: "(string \<Rightarrow> string) \<Rightarrow> string option \<Rightarrow> string option" where
  "decodeContinuationHeader fromBase64 input =
     (case input of None \<Rightarrow> None | Some s \<Rightarrow> Some (fromBase64 s))"

definition encodeContinuationHeader :: "(string \<Rightarrow> string) \<Rightarrow> string option \<Rightarrow> string option" where
  "encodeContinuationHeader toBase64 input =
     (case input of None \<Rightarrow> None | Some s \<Rightarrow> Some (toBase64 s))"

text \<open>
  \<^verbatim>\<open>queryOptions\<close> is given by its two fields \<^verbatim>\<open>filter\<close> and \<^verbatim>\<open>top\<close>
  (\<open>queryFilter\<close> and \<open>topOption\<close>); \<^verbatim>\<open>top || QUERY_RESULT_MAX_NUM\<close> takes the
  default for \<^verbatim>\<open>undefined\<close> and for 0.
\<close>

definition queryTableEntities ::
  "(string \<Rightarrow> (entity \<Rightarrow> bool) option) \<Rightarrow> (string \<Rightarrow> string) \<Rightarrow> (string \<Rightarrow> string) \<Rightarrow> store
     \<Rightarrow> string \<Rightarrow> string \<Rightarrow> string option \<Rightarrow> nat option \<Rightarrow> string option \<Rightarrow> string option
     \<Rightarrow> error + (doc list \<times> string option \<times> string option)" where
  "queryTableEntities newFunction fromBase64 toBase64 st acct tbl queryFilter topOption
       nextPartitionKey nextRowKey =
     (case findTable st acct tbl of
        None \<Rightarrow> Inl TableNotExist
      | Some tableDocument \<Rightarrow>
     (case entityCollections st (getTableCollectionName acct tbl) of
        None \<Rightarrow> Inl TableNotExist
      | Some tableEntityCollection \<Rightarrow>
     (case generateQueryEntityWhereFunction newFunction queryFilter of
        Inl e \<Rightarrow> Inl QueryConditionInvalid
      | Inr queryWhere \<Rightarrow>
       (let maxResults =
              (case topOption of
                 None \<Rightarrow> QUERY_RESULT_MAX_NUM
               | Some n \<Rightarrow> if n = 0 then QUERY_RESULT_MAX_NUM else n);
            decodedNextPartitionKey = decodeContinuationHeader fromBase64 nextPartitionKey;
            decodedNextRowKey = decodeContinuationHeader fromBase64 nextRowKey;
            result =
              take (maxResults + 1)
                (sort_by entityCompare
                  (filter
                    (\<lambda>d. continuationFilter decodedNextPartitionKey decodedNextRowKey
                            (Some (PartitionKey (snd d))) (Some (RowKey (snd d))))
                    (filter (\<lambda>d. queryWhere (snd d)) (docs tableEntityCollection))))
        in if length result > maxResults
           then
             (let tail = last result
              in Inr (butlast result,
                      encodeContinuationHeader toBase64 (Some (PartitionKey (snd tail))),
                      encodeContinuationHeader toBase64 (Some (RowKey (snd tail)))))
           else Inr (result, None, None)))))"


section \<open>Properties\<close>

subsection \<open>The two replace calls encode the first two colons\<close>

lemma js_replace_colon_Nil: "js_replace '':'' ''%3A'' s = [] \<longleftrightarrow> s = []"
  by (cases s) auto

lemma js_replace_colon_star: "js_replace '':'' ''%3A'' s = ''*'' \<longleftrightarrow> s = ''*''"
  by (cases s) (auto simp: js_replace_colon_Nil)

lemma js_replace_colon_once: "js_replace '':'' ''%3A'' s = encodeFirstColons 1 s"
  by (induction s) auto

lemma js_replace_colon_append:
  "CHR '':'' \<notin> set p \<Longrightarrow> js_replace '':'' ''%3A'' (p @ s) = p @ js_replace '':'' ''%3A'' s"
  by (induction p) auto

lemma js_replace_colon_twice:
  "js_replace '':'' ''%3A'' (js_replace '':'' ''%3A'' s) = encodeFirstColons 2 s"
proof (induction s)
  case Nil
  show ?case by (simp add: numeral_2_eq_2)
next
  case (Cons c cs)
  show ?case
  proof (cases "c = CHR '':''")
    case True
    have "js_replace '':'' ''%3A'' (''%3A'' @ cs) = ''%3A'' @ js_replace '':'' ''%3A'' cs"
      by (rule js_replace_colon_append) simp
    with True show ?thesis
      by (simp add: js_replace_colon_once numeral_2_eq_2)
  next
    case False
    with Cons show ?thesis by (simp add: numeral_2_eq_2)
  qed
qed

lemma encodeFirstColons_star: "encodeFirstColons 2 s = ''*'' \<longleftrightarrow> s = ''*''"
  unfolding js_replace_colon_twice[symmetric] by (simp add: js_replace_colon_star)

subsection \<open>update and merge once the entity is found\<close>

lemma updateTableEntity_found:
  assumes "findTable st acct tbl = Some t"
      and "entityCollections st (getTableCollectionName acct tbl) = Some coll"
      and "findOne coll (PartitionKey ent) (RowKey ent) = Some doc"
  shows "updateTableEntity ts st tbl acct ent ifMatch batchId =
     (let st1 = (if batchId \<noteq> Some ''''
                   then st\<lparr>transactionRollbackTheseEntities :=
                             transactionRollbackTheseEntities st @ [doc]\<rparr>
                   else st)
      in if ifMatch = None \<or> ifMatch = Some ''*'' \<or>
            Some (encodeFirstColons 2 (eTag (snd doc))) = map_option (encodeFirstColons 2) ifMatch
         then (let ent2 = ent\<lparr>properties :=
                           AList.update ''Timestamp@odata.type'' (JStr ''Edm.DateTime'')
                             (AList.update ''Timestamp'' (JStr (ts (lastModifiedTime ent)))
                                (properties ent))\<rparr>
               in (Inr ent2,
                  st1\<lparr>entityCollections :=
                        (entityCollections st1)(getTableCollectionName acct tbl \<mapsto>
                           insert_doc (remove_doc coll doc) ent2)\<rparr>))
         else (Inl PreconditionFailed, st1))"
  using assms
  by (cases ifMatch)
     (simp_all add: updateTableEntity_def Let_def js_replace_colon_twice encodeFirstColons_star)

lemma mergeTableEntity_found:
  assumes "findTable st acct tbl = Some t"
      and "entityCollections st (getTableCollectionName acct tbl) = Some coll"
      and "findOne coll (PartitionKey ent) (RowKey ent) = Some doc"
  shows "mergeTableEntity st tbl acct ent ifMatch batchId =
     (let st1 = (if batchId \<noteq> Some ''''
                   then st\<lparr>transactionRollbackTheseEntities :=
                             transactionRollbackTheseEntities st @ [doc]\<rparr>
                   else st)
      in if ifMatch = None \<or> ifMatch = Some ''*'' \<or>
            Some (encodeFirstColons 2 (eTag (snd doc))) = map_option (encodeFirstColons 2) ifMatch
         then (let mergedDEntity =
                    ent\<lparr>properties := mergeProperties (properties (snd doc)) (properties ent)\<rparr>
               in (Inr mergedDEntity,
                  st1\<lparr>entityCollections :=
                        (entityCollections st1)(getTableCollectionName acct tbl \<mapsto>
                           update_doc coll (fst doc, mergedDEntity))\<rparr>))
         else (Inl PreconditionFailed, st1))"
  using assms
  by (cases ifMatch)
     (simp_all add: mergeTableEntity_def Let_def js_replace_colon_twice encodeFirstColons_star)

lemma example_store_lookup:
  "findTable example_store ''acct'' ''t'' = Some \<lparr>account = ''acct'', table = ''t''\<rparr>"
  "entityCollections example_store (getTableCollectionName ''acct'' ''t'') =
     Some \<lparr>docs = [(1, example_entity)], maxId = 1, replaced = []\<rparr>"
  "findOne \<lparr>docs = [(1, example_entity)], maxId = 1, replaced = []\<rparr>
     (PartitionKey example_update) (RowKey example_update) = Some (1, example_entity)"
  by (simp_all add: findTable_def example_store_def getTableCollectionName_def findOne_def
        example_entity_def example_update_def)

subsection \<open>C1: the ETag precondition of update and merge\<close>

text \<open>
  C1. For a call of \<^verbatim>\<open>updateTableEntity\<close> or \<^verbatim>\<open>mergeTableEntity\<close> whose target
  entity exists: when \<^verbatim>\<open>ifMatch\<close> is \<^verbatim>\<open>undefined\<close> or \<^verbatim>\<open>"*"\<close> the check is
  bypassed and the call succeeds; otherwise it succeeds if and only if the stored eTag
  and \<^verbatim>\<open>ifMatch\<close> are equal after the first two colons of each have been replaced by
  \<^verbatim>\<open>%3A\<close>, and on inequality it throws precondition-failed.
\<close>

theorem etag_precondition:
  assumes "findTable st acct tbl = Some t"
      and "entityCollections st (getTableCollectionName acct tbl) = Some coll"
      and "findOne coll (PartitionKey ent) (RowKey ent) = Some doc"
  shows "(ifMatch = None \<or> ifMatch = Some ''*'' \<longrightarrow>
            \<not> isl (fst (updateTableEntity ts st tbl acct ent ifMatch batchId)) \<and>
            \<not> isl (fst (mergeTableEntity st tbl acct ent ifMatch batchId))) \<and>
         (\<forall>m. ifMatch = Some m \<and> m \<noteq> ''*'' \<longrightarrow>
            (\<not> isl (fst (updateTableEntity ts st tbl acct ent ifMatch batchId)) \<longleftrightarrow>
               encodeFirstColons 2 (eTag (snd doc)) = encodeFirstColons 2 m) \<and>
            (\<not> isl (fst (mergeTableEntity st tbl acct ent ifMatch batchId)) \<longleftrightarrow>
               encodeFirstColons 2 (eTag (snd doc)) = encodeFirstColons 2 m) \<and>
            (encodeFirstColons 2 (eTag (snd doc)) \<noteq> encodeFirstColons 2 m \<longrightarrow>
               fst (updateTableEntity ts st tbl acct ent ifMatch batchId) = Inl PreconditionFailed \<and>
               fst (mergeTableEntity st tbl acct ent ifMatch batchId) = Inl PreconditionFailed))"
  by (simp add: updateTableEntity_found[OF assms] mergeTableEntity_found[OF assms] Let_def)

theorem etag_precondition_witness:
  "\<not> isl (fst (updateTableEntity (\<lambda>d. ''t1'') example_store ''t'' ''acct'' example_update
            (Some ''W/dt2020T10%3A20%3A30Z'') None)) \<and>
   \<not> isl (fst (mergeTableEntity example_store ''t'' ''acct'' example_update
            (Some ''W/dt2020T10%3A20%3A30Z'') None)) \<and>
   fst (updateTableEntity (\<lambda>d. ''t1'') example_store ''t'' ''acct'' example_update
            (Some ''W/dt2020T10:20:31Z'') None) = Inl PreconditionFailed \<and>
   fst (mergeTableEntity example_store ''t'' ''acct'' example_update
            (Some ''W/dt2020T10:20:31Z'') None) = Inl PreconditionFailed"
  using etag_precondition[OF example_store_lookup,
          of "Some ''W/dt2020T10%3A20%3A30Z''" "\<lambda>d. ''t1''" None]
        etag_precondition[OF example_store_lookup,
          of "Some ''W/dt2020T10:20:31Z''" "\<lambda>d. ''t1''" None]
  by (simp add: example_entity_def numeral_2_eq_2)

subsection \<open>C10: the pre-image is logged before the ETag is checked\<close>

text \<open>
  C10. In \<^verbatim>\<open>updateTableEntity\<close> and \<^verbatim>\<open>mergeTableEntity\<close>, when the target entity
  exists, the stored document is appended to the rollback log whenever \<^verbatim>\<open>batchId\<close> is
  not the empty string, also when it is \<^verbatim>\<open>undefined\<close>; the append comes before the ETag
  check, so the log of the resulting store has the pre-image whatever the outcome of the
  call, precondition-failed included.
\<close>

theorem preimage_logged_before_etag_check:
  assumes "findTable st acct tbl = Some t"
      and "entityCollections st (getTableCollectionName acct tbl) = Some coll"
      and "findOne coll (PartitionKey ent) (RowKey ent) = Some doc"
  shows "transactionRollbackTheseEntities
           (snd (updateTableEntity ts st tbl acct ent ifMatch batchId)) =
         (if batchId = Some '''' then transactionRollbackTheseEntities st
          else transactionRollbackTheseEntities st @ [doc]) \<and>
         transactionRollbackTheseEntities
           (snd (mergeTableEntity st tbl acct ent ifMatch batchId)) =
         (if batchId = Some '''' then transactionRollbackTheseEntities st
          else transactionRollbackTheseEntities st @ [doc])"
  by (simp add: updateTableEntity_found[OF assms] mergeTableEntity_found[OF assms] Let_def)

theorem preimage_logged_before_etag_check_witness:
  "fst (updateTableEntity (\<lambda>d. ''t1'') example_store ''t'' ''acct'' example_update
          (Some ''W/stale'') None) = Inl PreconditionFailed \<and>
   transactionRollbackTheseEntities
     (snd (updateTableEntity (\<lambda>d. ''t1'') example_store ''t'' ''acct'' example_update
          (Some ''W/stale'') None)) = [(1, example_entity)] \<and>
   fst (mergeTableEntity example_store ''t'' ''acct'' example_update
          (Some ''W/stale'') None) = Inl PreconditionFailed \<and>
   transactionRollbackTheseEntities
     (snd (mergeTableEntity example_store ''t'' ''acct'' example_update
          (Some ''W/stale'') None)) = [(1, example_entity)]"
proof -
  have log: "transactionRollbackTheseEntities example_store = []"
    by (simp add: example_store_def)
  have etag: "encodeFirstColons 2 (eTag example_entity) \<noteq> encodeFirstColons 2 ''W/stale''"
    by (simp add: example_entity_def numeral_2_eq_2)
  show ?thesis
    using preimage_logged_before_etag_check[OF example_store_lookup,
            of "\<lambda>d. ''t1''" "Some ''W/stale''" None] log etag
    by (simp add: updateTableEntity_found[OF example_store_lookup]
          mergeTableEntity_found[OF example_store_lookup] Let_def)
qed

subsection \<open>Facts about collections\<close>

lemma findOne_Some_in:
  "findOne coll pk rk = Some doc \<Longrightarrow>
     doc \<in> set (docs coll) \<and> PartitionKey (snd doc) = pk \<and> RowKey (snd doc) = rk"
  by (auto simp: findOne_def find_Some_iff)

lemma findOne_None_iff:
  "findOne coll pk rk = None \<longleftrightarrow> (\<forall>d \<in> set (docs coll). key_of d \<noteq> (pk, rk))"
  by (force simp: findOne_def find_None_iff key_of_def)

lemma unique_keys_same_key:
  assumes "unique_keys coll" "d \<in> set (docs coll)" "d' \<in> set (docs coll)" "key_of d = key_of d'"
  shows "d = d'"
  using assms unfolding unique_keys_def
  by (metis distinct_map inj_onD)

lemma findOne_remove_doc_None:
  assumes "unique_keys coll" "findOne coll pk rk = Some doc"
  shows "findOne (remove_doc coll doc) pk rk = None"
proof -
  from assms(2) have in_coll: "doc \<in> set (docs coll)" and key: "key_of doc = (pk, rk)"
    by (auto dest: findOne_Some_in simp: key_of_def)
  have "key_of d \<noteq> (pk, rk)" if "d \<in> set (docs (remove_doc coll doc))" for d
  proof
    assume "key_of d = (pk, rk)"
    moreover from that have "d \<in> set (docs coll)" "fst d \<noteq> fst doc"
      by (auto simp: remove_doc_def)
    ultimately show False
      using unique_keys_same_key[OF assms(1) _ in_coll] key by auto
  qed
  then show ?thesis by (simp add: findOne_None_iff)
qed

subsection \<open>C6: deleteTableEntity\<close>

text \<open>
  C6. On an existing table, \<^verbatim>\<open>deleteTableEntity\<close> throws properties-need-value when
  \<^verbatim>\<open>partitionKey\<close> or \<^verbatim>\<open>rowKey\<close> is \<^verbatim>\<open>undefined\<close>, entity-not-found when no entity
  has the two keys, and precondition-failed when the given etag is not \<^verbatim>\<open>"*"\<close> and
  differs from the stored eTag as it stands (no colon is encoded, unlike update and
  merge); otherwise it removes the entity: the stored document leaves the collection,
  and with unique keys no entity with the two keys is left.
\<close>

theorem deleteTableEntity_outcomes:
  assumes "findTable st acct tbl = Some t"
      and "entityCollections st (getTableCollectionName acct tbl) = Some coll"
  shows "(partitionKey = None \<or> rowKey = None \<longrightarrow>
            deleteTableEntity st tbl acct partitionKey rowKey etag batchId =
              (Inl PropertiesNeedValue, st)) \<and>
         (\<forall>pk rk. partitionKey = Some pk \<and> rowKey = Some rk \<longrightarrow>
            (findOne coll pk rk = None \<longrightarrow>
               deleteTableEntity st tbl acct partitionKey rowKey etag batchId =
                 (Inl EntityNotFound, st)) \<and>
            (\<forall>doc. findOne coll pk rk = Some doc \<longrightarrow>
               (etag \<noteq> ''*'' \<and> eTag (snd doc) \<noteq> etag \<longrightarrow>
                  deleteTableEntity st tbl acct partitionKey rowKey etag batchId =
                    (Inl PreconditionFailed, st)) \<and>
               (etag = ''*'' \<or> eTag (snd doc) = etag \<longrightarrow>
                  fst (deleteTableEntity st tbl acct partitionKey rowKey etag batchId) = Inr () \<and>
                  entityCollections
                    (snd (deleteTableEntity st tbl acct partitionKey rowKey etag batchId))
                    (getTableCollectionName acct tbl) = Some (remove_doc coll doc) \<and>
                  docs (remove_doc coll doc) = filter (\<lambda>d. fst d \<noteq> fst doc) (docs coll) \<and>
                  doc \<notin> set (docs (remove_doc coll doc)) \<and>
                  (unique_keys coll \<longrightarrow> findOne (remove_doc coll doc) pk rk = None))))"
proof -
  have gone: "doc \<notin> set (docs (remove_doc coll doc))" for doc
    by (simp add: remove_doc_def)
  have filt: "docs (remove_doc coll doc) = filter (\<lambda>d. fst d \<noteq> fst doc) (docs coll)" for doc
    by (simp add: remove_doc_def)
  show ?thesis
    using assms gone filt
    by (auto simp: deleteTableEntity_def Let_def findOne_remove_doc_None
          split: option.splits)
qed

theorem deleteTableEntity_outcomes_witness:
  "deleteTableEntity example_store ''t'' ''acct'' None (Some ''r'') ''*'' '''' =
     (Inl PropertiesNeedValue, example_store) \<and>
   deleteTableEntity example_store ''t'' ''acct'' (Some ''p'') (Some ''zz'') ''*'' '''' =
     (Inl EntityNotFound, example_store) \<and>
   deleteTableEntity example_store ''t'' ''acct'' (Some ''p'') (Some ''r'')
       ''W/dt2020T10%3A20%3A30Z'' '''' = (Inl PreconditionFailed, example_store) \<and>
   fst (deleteTableEntity example_store ''t'' ''acct'' (Some ''p'') (Some ''r'')
       ''W/dt2020T10:20:30Z'' '''') = Inr () \<and>
   findOne (remove_doc \<lparr>docs = [(1, example_entity)], maxId = 1, replaced = []\<rparr> (1, example_entity))
       ''p'' ''r'' = None"
proof -
  let ?coll = "\<lparr>docs = [(1, example_entity)], maxId = 1, replaced = []\<rparr>"
  have f1: "findOne ?coll ''p'' ''zz'' = None"
    by (simp add: findOne_def example_entity_def)
  have f2: "findOne ?coll ''p'' ''r'' = Some (1, example_entity)"
    by (simp add: findOne_def example_entity_def)
  have u: "unique_keys ?coll"
    by (simp add: unique_keys_def)
  have e: "eTag example_entity = ''W/dt2020T10:20:30Z''"
    by (simp add: example_entity_def)
  note th = deleteTableEntity_outcomes[OF example_store_lookup(1,2)]
  show ?thesis
    using th[of None "Some ''r''" "''*''" "''''"]
          th[of "Some ''p''" "Some ''zz''" "''*''" "''''"]
          th[of "Some ''p''" "Some ''r''" "''W/dt2020T10%3A20%3A30Z''" "''''"]
          th[of "Some ''p''" "Some ''r''" "''W/dt2020T10:20:30Z''" "''''"]
          f1 f2 u e
    by simp
qed

subsection \<open>C3: the undo logs and beginBatchTransaction\<close>

lemma beginBatchTransaction_overlap_iff:
  "fst (beginBatchTransaction st batchId) = Inl TransactionOverlap \<longleftrightarrow>
     transactionRollbackTheseEntities st \<noteq> [] \<or> transactionDeleteTheseEntities st \<noteq> []"
  by (simp add: beginBatchTransaction_def)

lemma beginBatchTransaction_no_op:
  "snd (beginBatchTransaction st batchId) = st"
  "transactionRollbackTheseEntities st = [] \<Longrightarrow> transactionDeleteTheseEntities st = [] \<Longrightarrow>
     beginBatchTransaction st batchId = (Inr (), st)"
  by (simp_all add: beginBatchTransaction_def)

lemma insertTableEntity_logs:
  "transactionRollbackTheseEntities (snd (insertTableEntity ts st tbl acct ent batchId)) =
     transactionRollbackTheseEntities st"
  "batchId = None \<or> batchId = Some '''' \<Longrightarrow>
     transactionDeleteTheseEntities (snd (insertTableEntity ts st tbl acct ent batchId)) =
       transactionDeleteTheseEntities st"
  by (auto simp: insertTableEntity_def Let_def split: option.splits)

text \<open>
  C3. The claim: both undo logs are empty whenever no batch is active, and
  \<^verbatim>\<open>beginBatchTransaction\<close> fails with transaction-overlap exactly when a log is not
  empty. The second half holds (\<open>beginBatchTransaction_overlap_iff\<close>,
  \<open>beginBatchTransaction_no_op\<close>). The first half does not: on a store whose logs are
  empty and on which no batch was begun, an upsert of an existing entity with
  \<^verbatim>\<open>batchId\<close> \<^verbatim>\<open>undefined\<close> succeeds and leaves the pre-image in the rollback log
  (\<^verbatim>\<open>updateTableEntity\<close> tests \<^verbatim>\<open>batchId !== ""\<close> only, where
  \<^verbatim>\<open>insertTableEntity\<close> also tests \<^verbatim>\<open>batchId !== undefined\<close>), and the first batch
  begun afterwards is refused.
\<close>

theorem undo_log_filled_outside_batch:
  "transactionRollbackTheseEntities example_store = [] \<and>
   transactionDeleteTheseEntities example_store = [] \<and>
   \<not> isl (fst (insertOrUpdateTableEntity (\<lambda>d. ''t1'') example_store ''t'' ''acct''
              example_update None None)) \<and>
   transactionRollbackTheseEntities
     (snd (insertOrUpdateTableEntity (\<lambda>d. ''t1'') example_store ''t'' ''acct''
              example_update None None)) = [(1, example_entity)] \<and>
   fst (beginBatchTransaction
     (snd (insertOrUpdateTableEntity (\<lambda>d. ''t1'') example_store ''t'' ''acct''
              example_update None None)) ''b1'') = Inl TransactionOverlap"
proof -
  have q: "queryTableEntitiesWithPartitionAndRowKey example_store ''t'' ''acct''
             (PartitionKey example_update) (RowKey example_update) =
           Inr (Some (1, example_entity))"
    using example_store_lookup(2,3)
    by (simp add: queryTableEntitiesWithPartitionAndRowKey_def)
  have logs: "transactionRollbackTheseEntities example_store = []"
    "transactionDeleteTheseEntities example_store = []"
    by (simp_all add: example_store_def)
  show ?thesis
    by (simp add: insertOrUpdateTableEntity_def q logs beginBatchTransaction_def
          updateTableEntity_found[OF example_store_lookup] Let_def)
qed

subsection \<open>C2: what mergeTableEntity writes\<close>

lemma map_of_mergeProperty:
  "map_of (mergeProperty incoming merged k) =
     (if suffix ODATA_TYPE k then map_of merged
      else ((map_of merged)(k \<mapsto> prop_get incoming k))
             (k @ ODATA_TYPE :=
                (if prop_get incoming (k @ ODATA_TYPE) \<noteq> JUndefined
                 then Some (prop_get incoming (k @ ODATA_TYPE)) else None)))"
  by (simp add: mergeProperty_def Let_def update_conv' delete_conv')

lemma not_suffix_append_ODATA_TYPE: "\<not> suffix ODATA_TYPE k \<Longrightarrow> k \<noteq> k' @ ODATA_TYPE"
  by (auto simp: suffix_def)

lemma foldl_mergeProperty_lookup:
  "map_of (foldl (mergeProperty incoming) stored ks) j =
     (if j \<in> set ks \<and> \<not> suffix ODATA_TYPE j then Some (prop_get incoming j)
      else if \<exists>k \<in> set ks. \<not> suffix ODATA_TYPE k \<and> j = k @ ODATA_TYPE
        then (if prop_get incoming j \<noteq> JUndefined then Some (prop_get incoming j) else None)
      else map_of stored j)"
proof (induction ks rule: rev_induct)
  case Nil
  then show ?case by simp
next
  case (snoc k ks)
  show ?case
  proof (cases "suffix ODATA_TYPE k")
    case True
    with snoc show ?thesis
      by (auto simp: map_of_mergeProperty)
  next
    case False
    then have "k \<noteq> k' @ ODATA_TYPE" for k'
      by (rule not_suffix_append_ODATA_TYPE)
    with snoc False show ?thesis
      by (auto simp: map_of_mergeProperty suffix_def)
  qed
qed

text \<open>
  The part of C2 about the properties holds: after the loop, every incoming key that
  does not end in \<^verbatim>\<open>@odata.type\<close> has the incoming value, its type tag is the incoming
  tag when that is defined and is deleted otherwise, and every other stored property is
  kept.
\<close>

lemma mergeProperties_overlay:
  "map_of (mergeProperties stored incoming) j =
     (if j \<in> fst ` set incoming \<and> \<not> suffix ODATA_TYPE j then Some (prop_get incoming j)
      else if \<exists>k \<in> fst ` set incoming. \<not> suffix ODATA_TYPE k \<and> j = k @ ODATA_TYPE
        then (if prop_get incoming j \<noteq> JUndefined then Some (prop_get incoming j) else None)
      else map_of stored j)"
  by (auto simp: mergeProperties_def foldl_mergeProperty_lookup)

text \<open>
  C2. The claim also says that merge recomputes \<^verbatim>\<open>properties.Timestamp\<close> from the
  supplied \<^verbatim>\<open>lastModifiedTime\<close> and tags it \<^verbatim>\<open>Edm.DateTime\<close>, as update does.
  \<^verbatim>\<open>mergeTableEntity\<close> never calls \<^verbatim>\<open>getTimestampString\<close>: merging an entity
  without a \<^verbatim>\<open>Timestamp\<close> property and with \<^verbatim>\<open>lastModifiedTime = 5\<close> into the stored
  entity leaves the stored \<^verbatim>\<open>Timestamp\<close> \<^verbatim>\<open>t0\<close> in place, where
  \<^verbatim>\<open>updateTableEntity\<close> with the same arguments writes the timestamp string of 5.
\<close>

theorem merge_keeps_stale_Timestamp:
  "fst (mergeTableEntity example_store ''t'' ''acct'' example_update None (Some '''')) =
     Inr (example_update\<lparr>properties :=
            [(''x'', JNum 2), (''Timestamp'', JStr ''t0''),
             (''Timestamp@odata.type'', JStr ''Edm.DateTime''), (''y'', JStr ''v'')]\<rparr>) \<and>
   lastModifiedTime example_update = 5 \<and>
   fst (updateTableEntity getTimestampString example_store ''t'' ''acct'' example_update
          None (Some '''')) =
     Inr (example_update\<lparr>properties :=
            [(''y'', JStr ''v''), (''x'', JNum 2), (''Timestamp'', JStr (getTimestampString 5)),
             (''Timestamp@odata.type'', JStr ''Edm.DateTime'')]\<rparr>)"
proof -
  have m: "mergeProperties (properties example_entity) [(''y'', JStr ''v''), (''x'', JNum 2)] =
      [(''x'', JNum 2), (''Timestamp'', JStr ''t0''),
       (''Timestamp@odata.type'', JStr ''Edm.DateTime''), (''y'', JStr ''v'')]"
    by (simp add: mergeProperties_def mergeProperty_def example_entity_def example_update_def
          ODATA_TYPE_def prop_get_def Let_def suffix_def)
  have u: "lastModifiedTime example_update = 5" "properties example_update = [(''y'', JStr ''v''), (''x'', JNum 2)]"
    by (simp_all add: example_update_def)
  show ?thesis
    by (simp add: mergeTableEntity_found[OF example_store_lookup]
          updateTableEntity_found[OF example_store_lookup] Let_def m u)
qed

subsection \<open>The tokenizer emits no empty token\<close>







subsection \<open>The loop of transformQuery, token by token\<close>





subsection \<open>C4: endBatchTransaction\<close>

lemma endBatchTransaction_commit:
  "endBatchTransaction st acct tbl batchId True =
     (Inr (), st\<lparr>transactionRollbackTheseEntities := [], transactionDeleteTheseEntities := []\<rparr>)"
  by (simp add: endBatchTransaction_def)

lemma endBatchTransaction_completed:
  "fst (endBatchTransaction st acct tbl batchId succeeded) = Inr () \<Longrightarrow>
     transactionRollbackTheseEntities (snd (endBatchTransaction st acct tbl batchId succeeded)) = [] \<and>
     transactionDeleteTheseEntities (snd (endBatchTransaction st acct tbl batchId succeeded)) = []"
  by (auto simp: endBatchTransaction_def Let_def split: option.splits prod.splits if_splits)

text \<open>
  C4. The claim: with \<^verbatim>\<open>succeeded = false\<close>, \<^verbatim>\<open>endBatchTransaction\<close> restores every
  pre-image, removes every entity recorded in the delete log and clears both logs
  unconditionally at the end. The commit half holds (\<open>endBatchTransaction_commit\<close>), and
  a rollback that comes to its end clears the logs (\<open>endBatchTransaction_completed\<close>).
  The rollback half fails for a batch that inserts an entity and then deletes it: on
  \<open>example_store\<close> (one entity (p, r), no batch active) the batch begins, inserts (p, r2)
  and deletes (p, r2). Both logs then hold the inserted object, and
  \<^verbatim>\<open>deleteTableEntity\<close> has handed it to \<^verbatim>\<open>remove\<close>. The rollback inserts a copy of
  it as a pre-image; the second loop then calls \<^verbatim>\<open>remove\<close> on the logged object, which
  is no stored document any more, and throws. The two resets are never reached: both
  logs stay as they were, and the entity (p, r2), inserted during the batch, is stored
  after the rollback.
\<close>

theorem rollback_throws_after_insert_and_delete:
  "(let st0 = snd (beginBatchTransaction example_store ''b1'');
        st1 = snd (insertTableEntity (\<lambda>d. ''t7'') st0 ''t'' ''acct'' example_inserted (Some ''b1''));
        st2 = snd (deleteTableEntity st1 ''t'' ''acct'' (Some ''p'') (Some ''r2'') ''*'' ''b1'');
        result = endBatchTransaction st2 ''acct'' ''t'' ''b1'' False
    in fst (beginBatchTransaction example_store ''b1'') = Inr () \<and>
       fst (insertTableEntity (\<lambda>d. ''t7'') st0 ''t'' ''acct'' example_inserted (Some ''b1'')) =
         Inr example_inserted \<and>
       fst (deleteTableEntity st1 ''t'' ''acct'' (Some ''p'') (Some ''r2'') ''*'' ''b1'') = Inr () \<and>
       transactionRollbackTheseEntities st2 = [(2, example_inserted)] \<and>
       transactionDeleteTheseEntities st2 = [(2, example_inserted)] \<and>
       entityCollections st2 ''acct$t'' =
         Some \<lparr>docs = [(1, example_entity)], maxId = 2, replaced = []\<rparr> \<and>
       fst result = Inl NotADocument \<and>
       transactionRollbackTheseEntities (snd result) = [(2, example_inserted)] \<and>
       transactionDeleteTheseEntities (snd result) = [(2, example_inserted)] \<and>
       entityCollections (snd result) ''acct$t'' =
         Some \<lparr>docs = [(1, example_entity), (3, example_inserted)], maxId = 3, replaced = []\<rparr> \<and>
       findOne \<lparr>docs = [(1, example_entity), (3, example_inserted)], maxId = 3, replaced = []\<rparr>
         ''p'' ''r2'' = Some (3, example_inserted) \<and>
       fst (beginBatchTransaction (snd result) ''b2'') = Inl TransactionOverlap)"
proof -
  let ?c0 = "\<lparr>docs = [(1, example_entity)], maxId = 1, replaced = []\<rparr>"
  let ?c1 = "\<lparr>docs = [(1, example_entity), (2, example_inserted)], maxId = 2, replaced = []\<rparr>"
  let ?c2 = "\<lparr>docs = [(1, example_entity)], maxId = 2, replaced = []\<rparr>"
  let ?c3 = "\<lparr>docs = [(1, example_entity), (3, example_inserted)], maxId = 3, replaced = []\<rparr>"
  let ?tables = "[\<lparr>account = ''acct'', table = ''t''\<rparr>]"
  let ?st1 = "\<lparr>tablesCollection = ?tables, entityCollections = [''acct$t'' \<mapsto> ?c1],
              transactionRollbackTheseEntities = [],
              transactionDeleteTheseEntities = [(2, example_inserted)]\<rparr>"
  let ?st2 = "\<lparr>tablesCollection = ?tables, entityCollections = [''acct$t'' \<mapsto> ?c2],
              transactionRollbackTheseEntities = [(2, example_inserted)],
              transactionDeleteTheseEntities = [(2, example_inserted)]\<rparr>"
  let ?st3 = "\<lparr>tablesCollection = ?tables, entityCollections = [''acct$t'' \<mapsto> ?c3],
              transactionRollbackTheseEntities = [(2, example_inserted)],
              transactionDeleteTheseEntities = [(2, example_inserted)]\<rparr>"
  have name: "getTableCollectionName ''acct'' ''t'' = ''acct$t''"
    by (simp add: getTableCollectionName_def)
  have keys: "PartitionKey example_inserted = ''p''" "RowKey example_inserted = ''r2''"
    "PartitionKey example_entity = ''p''" "RowKey example_entity = ''r''"
    by (simp_all add: example_inserted_def example_entity_def)
  have stamped: "example_inserted
      \<lparr>properties := AList.update ''Timestamp@odata.type'' (JStr ''Edm.DateTime'')
         (AList.update ''Timestamp'' (JStr ''t7'') (properties example_inserted))\<rparr> =
      example_inserted"
    by (simp add: example_inserted_def)
  have copied: "\<lparr>PartitionKey = PartitionKey example_inserted, RowKey = RowKey example_inserted,
      properties = properties example_inserted,
      lastModifiedTime = lastModifiedTime example_inserted, eTag = eTag example_inserted\<rparr> =
      example_inserted"
    by (simp add: example_inserted_def)
  have b: "beginBatchTransaction example_store ''b1'' = (Inr (), example_store)"
    by (simp add: beginBatchTransaction_def example_store_def)
  have i: "insertTableEntity (\<lambda>d. ''t7'') example_store ''t'' ''acct'' example_inserted (Some ''b1'') =
             (Inr example_inserted, ?st1)"
    by (simp add: insertTableEntity_def findTable_def example_store_def name findOne_def keys
          Let_def stamped insert_doc_def numeral_2_eq_2)
  have d: "deleteTableEntity ?st1 ''t'' ''acct'' (Some ''p'') (Some ''r2'') ''*'' ''b1'' =
             (Inr (), ?st2)"
    by (simp add: deleteTableEntity_def findTable_def name findOne_def keys Let_def remove_doc_def numeral_2_eq_2)
  have r1: "restoreEntity ?c2 (2, example_inserted) = ?c3"
    by (simp add: restoreEntity_def findOne_def keys copied insert_doc_def Let_def numeral_3_eq_3 numeral_2_eq_2)
  have r2: "remove_logged ?c3 (2, example_inserted) = None"
    by (simp add: remove_logged_def del: One_nat_def)
  have e: "endBatchTransaction ?st2 ''acct'' ''t'' ''b1'' False = (Inl NotADocument, ?st3)"
    by (simp add: endBatchTransaction_def name r1 r2 Let_def del: One_nat_def)
  have f: "findOne ?c3 ''p'' ''r2'' = Some (3, example_inserted)"
    by (simp add: findOne_def keys del: One_nat_def)
  have o: "fst (beginBatchTransaction ?st3 ''b2'') = Inl TransactionOverlap"
    by (simp add: beginBatchTransaction_def)
  show ?thesis
    by (simp add: Let_def b i d e f o del: One_nat_def)
qed

subsection \<open>C5: the continuation filter and the page of queryTableEntities\<close>

lemma continuationFilter_row_key_set:
  "continuationFilter decodedNextPartitionKey (Some k) dataPartitionKey dataRowKey \<longleftrightarrow>
     js_gt dataPartitionKey decodedNextPartitionKey \<or>
     (js_ge dataRowKey (Some k) \<and>
        (dataPartitionKey = decodedNextPartitionKey \<or> dataPartitionKey = None))"
  by (cases decodedNextPartitionKey) (auto simp: continuationFilter_def js_gt_def split: option.splits)

lemma continuationFilter_no_row_key:
  "continuationFilter decodedNextPartitionKey None dataPartitionKey dataRowKey"
  by (simp add: continuationFilter_def)

lemma set_insert_by: "set (insert_by cmp x ys) = insert x (set ys)"
  by (induction ys) auto

lemma mset_insert_by: "mset (insert_by cmp x ys) = add_mset x (mset ys)"
  by (induction ys) auto

lemma mset_sort_by: "mset (sort_by cmp xs) = mset xs"
  by (induction xs) (simp_all add: sort_by_def mset_insert_by)

lemma entityCompare_le:
  "entityCompare a b \<le> 0 \<longleftrightarrow>
     PartitionKey (snd a) < PartitionKey (snd b) \<or>
     (PartitionKey (snd a) = PartitionKey (snd b) \<and> RowKey (snd a) \<le> RowKey (snd b))"
  by (auto simp: entityCompare_def)

lemma sorted_insert_by_entityCompare:
  assumes "sorted_wrt (\<lambda>a b. entityCompare a b \<le> 0) ys"
  shows "sorted_wrt (\<lambda>a b. entityCompare a b \<le> 0) (insert_by entityCompare x ys)"
  using assms
proof (induction ys)
  case Nil
  show ?case by simp
next
  case (Cons y ys)
  show ?case
  proof (cases "entityCompare x y \<le> 0")
    case True
    have "entityCompare x z \<le> 0" if "z \<in> set ys" for z
    proof -
      from Cons.prems that have "entityCompare y z \<le> 0" by simp
      with True show ?thesis unfolding entityCompare_le by auto
    qed
    with True Cons.prems show ?thesis by simp
  next
    case False
    then have "entityCompare y x \<le> 0" unfolding entityCompare_le by auto
    with False Cons show ?thesis by (auto simp: set_insert_by)
  qed
qed

lemma sorted_sort_by_entityCompare:
  "sorted_wrt (\<lambda>a b. entityCompare a b \<le> 0) (sort_by entityCompare xs)"
  by (induction xs) (simp_all add: sort_by_def sorted_insert_by_entityCompare)

lemma page_of_take:
  "m < length xs \<Longrightarrow>
     butlast (take (Suc m) xs) = take m xs \<and> last (take (Suc m) xs) = xs ! m"
  by (simp add: take_Suc_conv_app_nth)

text \<open>
  The rest of C5 holds. Once the table and its collection exist and the filter compiles,
  the records that pass both predicates are sorted ascending by
  (\<^verbatim>\<open>PartitionKey\<close>, \<^verbatim>\<open>RowKey\<close>); when they are more than \<open>maxResults\<close>, the first
  \<open>maxResults\<close> are returned with the keys of the next one, encoded, as the continuation,
  and otherwise all of them are returned with no continuation.
\<close>

lemma queryTableEntities_page:
  assumes "findTable st acct tbl = Some t"
      and "entityCollections st (getTableCollectionName acct tbl) = Some coll"
      and "generateQueryEntityWhereFunction newFunction queryFilter = Inr queryWhere"
  shows "queryTableEntities newFunction fromBase64 toBase64 st acct tbl queryFilter topOption
           nextPartitionKey nextRowKey =
     (let maxResults = (case topOption of None \<Rightarrow> QUERY_RESULT_MAX_NUM
                        | Some n \<Rightarrow> if n = 0 then QUERY_RESULT_MAX_NUM else n);
          matching = sort_by entityCompare
            (filter (\<lambda>d. queryWhere (snd d) \<and>
                       continuationFilter (map_option fromBase64 nextPartitionKey)
                         (map_option fromBase64 nextRowKey)
                         (Some (PartitionKey (snd d))) (Some (RowKey (snd d))))
               (docs coll))
      in if length matching > maxResults
         then Inr (take maxResults matching,
                   Some (toBase64 (PartitionKey (snd (matching ! maxResults)))),
                   Some (toBase64 (RowKey (snd (matching ! maxResults)))))
         else Inr (matching, None, None))"
proof -
  have dec: "decodeContinuationHeader fromBase64 x = map_option fromBase64 x" for x
    by (cases x) (simp_all add: decodeContinuationHeader_def)
  have flt: "filter P (filter Q xs) = filter (\<lambda>d. Q d \<and> P d) xs" for P Q and xs :: "doc list"
    by (induction xs) auto
  have pg: "length xs > m \<Longrightarrow>
      butlast (take (Suc m) xs) = take m xs \<and> last (take (Suc m) xs) = xs ! m"
    for m and xs :: "doc list"
    by (rule page_of_take)
  have small: "\<not> length xs > m \<Longrightarrow> take (Suc m) xs = xs" for m and xs :: "doc list"
    by simp
  show ?thesis
    unfolding queryTableEntities_def assms dec flt
    by (simp add: Let_def encodeContinuationHeader_def pg small min_def)
qed

text \<open>
  C5. The claim: a record passes the continuation filter iff
  \<^verbatim>\<open>PartitionKey > decodedNextPartitionKey\<close>, or \<^verbatim>\<open>RowKey >= decodedNextRowKey\<close> while
  \<^verbatim>\<open>PartitionKey\<close> equals \<^verbatim>\<open>decodedNextPartitionKey\<close> (or is undefined), and every
  record passes when neither key is set. This is what the predicate computes when
  \<^verbatim>\<open>nextRowKey\<close> is set (\<open>continuationFilter_row_key_set\<close>) and when neither key is
  set. With \<^verbatim>\<open>nextPartitionKey\<close> set and \<^verbatim>\<open>nextRowKey\<close> undefined, the predicate falls
  through to its last \<^verbatim>\<open>return true\<close> and admits every record: on \<open>example_store\<close>,
  which holds the one entity (p, r), the query with \<^verbatim>\<open>nextPartitionKey = "cQ=="\<close>
  (decoded: q) and no \<^verbatim>\<open>nextRowKey\<close> returns the entity, although p is not greater than
  q. The same query with \<^verbatim>\<open>nextRowKey = "cg=="\<close> (decoded: r) returns nothing.
\<close>

theorem partition_key_alone_admits_every_record:
  "queryTableEntities newFunction (\<lambda>s. if s = ''cQ=='' then ''q'' else ''r'') toBase64
     example_store ''acct'' ''t'' None None (Some ''cQ=='') None =
     Inr ([(1, example_entity)], None, None) \<and>
   PartitionKey example_entity = ''p'' \<and> \<not> ''p'' > ''q'' \<and>
   queryTableEntities newFunction (\<lambda>s. if s = ''cQ=='' then ''q'' else ''r'') toBase64
     example_store ''acct'' ''t'' None None (Some ''cQ=='') (Some ''cg=='') =
     Inr ([], None, None)"
proof -
  have t: "findTable example_store ''acct'' ''t'' = Some \<lparr>account = ''acct'', table = ''t''\<rparr>"
    by (simp add: findTable_def example_store_def)
  have c: "entityCollections example_store (getTableCollectionName ''acct'' ''t'') =
      Some \<lparr>docs = [(1, example_entity)], maxId = 1, replaced = []\<rparr>"
    by (simp add: example_store_def getTableCollectionName_def)
  have w: "generateQueryEntityWhereFunction newFunction None = Inr (\<lambda>item. True)"
    by (simp add: generateQueryEntityWhereFunction_def)
  have k: "PartitionKey example_entity = ''p''" "RowKey example_entity = ''r''"
    by (simp_all add: example_entity_def)
  have lt: "\<not> ''p'' > ''q''"
    by (simp add: less_char_def)
  have f2: "\<not> continuationFilter (Some ''q'') (Some ''r'') (Some ''p'') (Some ''r'')"
    using lt by (simp add: continuationFilter_def js_gt_def js_ge_def)
  show ?thesis
    unfolding queryTableEntities_page[OF t c w]
    by (simp add: k lt f2 continuationFilter_no_row_key QUERY_RESULT_MAX_NUM_def sort_by_def
          del: One_nat_def)
qed

subsection \<open>C9: when the compilation of a query fails\<close>









subsection \<open>C7: datetime in an entity query\<close>








subsection \<open>C8: guid literals and long integers\<close>


























lemma longint_no_datetime:
  assumes "ds \<noteq> []" and "\<forall>c \<in> set ds. is_digit c"
  shows "\<not> prefix ''datetime'' (ds @ ''L'')" "\<not> prefix ''X'' (ds @ ''L'')"
    "\<not> prefix ''binary'' (ds @ ''L'')"
proof -
  from assms obtain d ds' where ds: "ds = d # ds'" by (cases ds) auto
  with assms have "is_digit d" by simp
  then have "d \<noteq> CHR ''d''" "d \<noteq> CHR ''X''" "d \<noteq> CHR ''b''"
    by (auto simp: is_digit_def less_eq_char_def)
  then show "\<not> prefix ''datetime'' (ds @ ''L'')" "\<not> prefix ''X'' (ds @ ''L'')"
    "\<not> prefix ''binary'' (ds @ ''L'')"
    by (simp_all add: ds)
qed



end
